theory Spec2Isabelle
  imports
    Main
    "HOL-Library.Word"
    "HOL-Library.Char_ord"
    "HOL-Library.List_Lexorder"
    "HOL-Library.AList"
begin

section \<open>Bytes, results and errors\<close>

text \<open>
  A Go \<^verbatim>\<open>string\<close> and a \<^verbatim>\<open>[]byte\<close> are both sequences of bytes; an Isabelle
  \<^typ>\<open>char\<close> is one byte, so both are \<^typ>\<open>string\<close>. The order on strings
  (\<^verbatim>\<open>sort.Strings\<close>) is the lexicographic order on the byte values.
\<close>

type_synonym bytes = string

text \<open>The error values the package returns, and the run-time panics it can raise.\<close>

datatype numerr = ErrSyntax | ErrRange

datatype perr =
    ErrUnsupportedType string  \<comment> \<open>\<^verbatim>\<open>"unsupported type " + value.Type().String()\<close>\<close>
  | ErrKeyType                 \<comment> \<open>\<^verbatim>\<open>"key type must be string"\<close>\<close>
  | ErrNotPointer              \<comment> \<open>\<^verbatim>\<open>"value is not a pointer"\<close>\<close>
  | ErrNotStructOrMap          \<comment> \<open>\<^verbatim>\<open>"type is not a struct or map"\<close>\<close>
  | ErrNum numerr              \<comment> \<open>a \<^verbatim>\<open>*strconv.NumError\<close>\<close>
  | ErrHook string             \<comment> \<open>an error returned by a user hook\<close>

datatype panic =
    IndexOutOfRange            \<comment> \<open>\<^verbatim>\<open>data[i]\<close> with \<^verbatim>\<open>i\<close> outside \<^verbatim>\<open>0 .. len(data) - 1\<close>\<close>
  | SliceBounds                \<comment> \<open>\<^verbatim>\<open>data[i:j]\<close> with \<^verbatim>\<open>j < i\<close> or \<^verbatim>\<open>j > cap(data)\<close>\<close>
  | InvalidValue               \<comment> \<open>a method of the zero \<^verbatim>\<open>reflect.Value\<close>\<close>
  | ReflectKind                \<comment> \<open>\<^verbatim>\<open>SetInt\<close>, \<^verbatim>\<open>Append\<close>, \<^verbatim>\<open>Set\<close> on a value of the wrong kind\<close>
  | TypeAssertion              \<comment> \<open>a failed \<^verbatim>\<open>v.(*string)\<close>\<close>
  | HookPanic                  \<comment> \<open>a panic inside a user hook\<close>

text \<open>A call either panics or returns its results (a Go function returns all of them).\<close>

datatype 'a res = Panic panic | Ret 'a

section \<open>strconv\<close>

text \<open>
  \<^verbatim>\<open>strconv.Itoa\<close>, \<^verbatim>\<open>strconv.ParseInt(s, 10, 64)\<close> and \<^verbatim>\<open>strconv.Atoi\<close> belong to
  Go's standard library; they are written here after its documentation and its
  source, for a platform whose \<^verbatim>\<open>int\<close> has 64 bits.
\<close>

definition digit :: "int \<Rightarrow> char" where
  "digit d = char_of (48 + d)"

function formatBits :: "int \<Rightarrow> string" where
  "formatBits n = (if n < 10 then [digit n] else formatBits (n div 10) @ [digit (n mod 10)])"
  by pat_completeness auto
termination
  by (relation "measure nat") auto

declare formatBits.simps [simp del]

definition Itoa :: "int \<Rightarrow> string" where
  "Itoa i = (if i < 0 then CHR ''-'' # formatBits (- i) else formatBits i)"

definition isDigit :: "char \<Rightarrow> bool" where
  "isDigit c = (48 \<le> (of_char c :: int) \<and> (of_char c :: int) \<le> 57)"

definition digitVal :: "char \<Rightarrow> int" where
  "digitVal c = of_char c - 48"

text \<open>
  The loop of \<^verbatim>\<open>ParseUint\<close> in base 10 for 64 bits: a byte that is no digit is a
  syntax error; a value beyond \<^verbatim>\<open>1<<64 - 1\<close> is a range error, reported at the
  digit where it is detected, with the largest value.
\<close>

definition maxUint64 :: int where
  "maxUint64 = 2 ^ 64 - 1"

fun parseUintLoop :: "string \<Rightarrow> int \<Rightarrow> int \<times> numerr option" where
  "parseUintLoop [] n = (n, None)"
| "parseUintLoop (c # cs) n =
     (if \<not> isDigit c then (0, Some ErrSyntax)
      else if n \<ge> maxUint64 div 10 + 1 then (maxUint64, Some ErrRange)
      else if n * 10 + digitVal c > maxUint64 then (maxUint64, Some ErrRange)
      else parseUintLoop cs (n * 10 + digitVal c))"

definition ParseUint :: "string \<Rightarrow> int \<times> numerr option" where
  "ParseUint s = (if s = [] then (0, Some ErrSyntax) else parseUintLoop s 0)"

definition ParseInt :: "string \<Rightarrow> int \<times> numerr option" where
  "ParseInt s0 =
     (if s0 = [] then (0, Some ErrSyntax)
      else
        let neg = (hd s0 = CHR ''-'');
            s = (if hd s0 = CHR ''+'' \<or> hd s0 = CHR ''-'' then tl s0 else s0);
            (un, err) = ParseUint s
        in if err = Some ErrSyntax then (0, Some ErrSyntax)
           else if \<not> neg \<and> un \<ge> 2 ^ 63 then (2 ^ 63 - 1, Some ErrRange)
           else if neg \<and> un > 2 ^ 63 then (- (2 ^ 63), Some ErrRange)
           else (if neg then - un else un, None))"

text \<open>
  \<^verbatim>\<open>Atoi\<close> is \<^verbatim>\<open>ParseInt(s, 10, 0)\<close> with a fast path for short strings that
  gives the same value and the same kind of error.
\<close>

definition Atoi :: "string \<Rightarrow> int \<times> numerr option" where
  "Atoi s = ParseInt s"

section \<open>Go values as Marshal sees them\<close>

text \<open>
  \<^verbatim>\<open>Marshal\<close> inspects its argument through \<^verbatim>\<open>reflect\<close>: the kind of the value,
  for a slice the kind of its elements, for a map the kind of its keys, for a
  struct the name, package path and tag of each field. A value whose type
  implements \<^verbatim>\<open>Marshaler\<close> is represented by what its \<^verbatim>\<open>MarshalBencode\<close>
  returns. A map is the list of its entries in the order in which \<^verbatim>\<open>MapRange\<close>
  happens to visit them; a Go map holds one entry for each key.
\<close>

datatype gval =
    VNil                       \<comment> \<open>the nil interface\<close>
  | VIface gval                \<comment> \<open>a slot of interface type holding a value\<close>
  | VMarshaler "(bytes \<times> perr option) res" bool
      \<comment> \<open>a value with a \<^verbatim>\<open>MarshalBencode\<close> method: what the method does, and
          whether the value is the zero value of its type\<close>
  | VInt "64 word"             \<comment> \<open>kinds Int, Int8, Int16, Int32, Int64: \<^verbatim>\<open>value.Int()\<close>\<close>
  | VUint "64 word"            \<comment> \<open>kinds Uint .. Uint64, Uintptr: \<^verbatim>\<open>value.Uint()\<close>\<close>
  | VString string
  | VBytes bytes               \<comment> \<open>a slice whose element kind is Uint8\<close>
  | VNilBytes                  \<comment> \<open>the nil slice of that type\<close>
  | VSlice "gval list"         \<comment> \<open>any other slice\<close>
  | VNilSlice
  | VArray "gval list"
  | VMap "(string \<times> gval) list" \<comment> \<open>a map whose key kind is String\<close>
  | VNilMap
  | VMapOtherKey               \<comment> \<open>a map with keys of another kind\<close>
  | VStruct "field list"
  | VPtr gval
  | VNilPtr
  | VOther string bool
      \<comment> \<open>a kind without a rule (Bool, Float, Complex, Chan, Func, ...): the name
          of the type, and whether the value is the zero value\<close>
and field =
    Field (fname: string) (fpkg: string) (ftag: "string option") (fval: gval)
      \<comment> \<open>\<^verbatim>\<open>Name\<close>, \<^verbatim>\<open>PkgPath\<close> (empty for an exported field),
          \<^verbatim>\<open>Tag.Lookup("bencode")\<close> and the field's value\<close>

text \<open>\<^verbatim>\<open>reflect.Value.IsZero\<close>, after its documentation.\<close>

fun IsZero :: "gval \<Rightarrow> bool" and fieldsZero :: "field list \<Rightarrow> bool" where
  "IsZero VNil = True"
| "IsZero (VIface v) = False"
| "IsZero (VMarshaler r z) = z"
| "IsZero (VInt w) = (w = 0)"
| "IsZero (VUint w) = (w = 0)"
| "IsZero (VString s) = (s = [])"
| "IsZero (VBytes s) = False"
| "IsZero VNilBytes = True"
| "IsZero (VSlice xs) = False"
| "IsZero VNilSlice = True"
| "IsZero (VArray xs) = list_all IsZero xs"
| "IsZero (VMap kvs) = False"
| "IsZero VNilMap = True"
| "IsZero VMapOtherKey = False"
| "IsZero (VStruct fs) = fieldsZero fs"
| "IsZero (VPtr v) = False"
| "IsZero VNilPtr = True"
| "IsZero (VOther n z) = z"
| "fieldsZero [] = True"
| "fieldsZero (Field n p t v # fs) = (IsZero v \<and> fieldsZero fs)"

section \<open>Encoding\<close>

definition marshalInt :: "int \<Rightarrow> bytes" where
  "marshalInt i = ''i'' @ Itoa i @ ''e''"

definition marshalString :: "string \<Rightarrow> bytes" where
  "marshalString str = Itoa (int (length str)) @ '':'' @ str"

text \<open>\<^verbatim>\<open>strings.SplitN(tag, ",", 2)\<close>: the part before the first comma, and the rest if
  there is a comma.\<close>

definition splitComma :: "string \<Rightarrow> string \<times> string option" where
  "splitComma tag =
     (let rest = dropWhile (\<lambda>c. c \<noteq> CHR '','') tag
      in (takeWhile (\<lambda>c. c \<noteq> CHR '','') tag, if rest = [] then None else Some (tl rest)))"

definition parseTag :: "string \<Rightarrow> string \<times> bool \<times> bool" where
  "parseTag tag =
     (let (h, r) = splitComma tag
      in (h, r = None \<and> h = ''-'', r = Some ''omitempty''))"

text \<open>
  The first loop of \<^verbatim>\<open>marshalStruct\<close>: the map \<^verbatim>\<open>m\<close> from wire names to field
  values, filled field by field in declaration order.
\<close>

fun structMap :: "field list \<Rightarrow> (string \<times> gval) list \<Rightarrow> (string \<times> gval) list" where
  "structMap [] m = m"
| "structMap (f # fs) m =
     (if fpkg f \<noteq> [] then structMap fs m
      else case ftag f of
        Some v \<Rightarrow>
          (let (name, omit, omitEmpty) = parseTag v
           in if omit \<or> (omitEmpty \<and> IsZero (fval f)) then structMap fs m
              else structMap fs (AList.update name (fval f) m))
      | None \<Rightarrow> structMap fs (AList.update (fname f) (fval f) m))"

text \<open>
  \<^verbatim>\<open>Marshal\<close> with \<^verbatim>\<open>marshalList\<close> (its loop, over the elements still to be
  written and the buffer), \<^verbatim>\<open>marshalMap\<close> (its second loop, over the sorted keys
  still to be written, the map \<^verbatim>\<open>dictionary\<close> and the buffer) and
  \<^verbatim>\<open>marshalStruct\<close>. Every argument of a recursive call is a
  \<^verbatim>\<open>reflect.Value.Interface()\<close>, which takes a value out of an interface slot.
\<close>

function (sequential)
  Marshal :: "gval \<Rightarrow> (bytes \<times> perr option) res" and
  marshalList :: "gval list \<Rightarrow> bytes \<Rightarrow> (bytes \<times> perr option) res" and
  marshalMap :: "(string \<times> gval) list \<Rightarrow> (bytes \<times> perr option) res" and
  marshalMapLoop ::
    "string list \<Rightarrow> (string \<times> gval) list \<Rightarrow> bytes \<Rightarrow> (bytes \<times> perr option) res" and
  marshalStruct :: "field list \<Rightarrow> (bytes \<times> perr option) res"
where
  "Marshal VNil = Panic InvalidValue"
| "Marshal (VIface v) = Marshal v"
| "Marshal (VMarshaler r z) = r"
| "Marshal (VInt w) = Ret (marshalInt (sint w), None)"
| "Marshal (VUint w) = Ret (marshalInt (sint w), None)"
| "Marshal (VString s) = Ret (marshalString s, None)"
| "Marshal (VBytes s) = Ret (marshalString s, None)"
| "Marshal VNilBytes = Ret (marshalString [], None)"
| "Marshal (VSlice xs) = marshalList xs ''l''"
| "Marshal VNilSlice = marshalList [] ''l''"
| "Marshal (VArray xs) = marshalList xs ''l''"
| "Marshal (VMap kvs) = marshalMap kvs"
| "Marshal VNilMap = marshalMap []"
| "Marshal VMapOtherKey = Ret ([], Some ErrKeyType)"
| "Marshal (VStruct fs) = marshalStruct fs"
| "Marshal (VPtr v) = Marshal v"
| "Marshal VNilPtr = Panic InvalidValue"
| "Marshal (VOther n z) = Ret ([], Some (ErrUnsupportedType n))"
| "marshalList [] buf = Ret (buf @ ''e'', None)"
| "marshalList (x # xs) buf =
     (case Marshal x of
        Panic p \<Rightarrow> Panic p
      | Ret (b, Some err) \<Rightarrow> Ret (buf @ b @ ''e'', Some err)
      | Ret (b, None) \<Rightarrow> marshalList xs (buf @ b))"
| "marshalMap kvs = marshalMapLoop (sort (map fst kvs)) kvs ''d''"
| "marshalMapLoop [] dictionary buf = Ret (buf @ ''e'', None)"
| "marshalMapLoop (key # keys) dictionary buf =
     (case map_of dictionary key of
        None \<Rightarrow> Panic InvalidValue
      | Some v \<Rightarrow>
          (case Marshal v of
             Panic p \<Rightarrow> Panic p
           | Ret (b, Some err) \<Rightarrow> Ret ([], Some err)
           | Ret (b, None) \<Rightarrow>
               if length b > 0 then marshalMapLoop keys dictionary (buf @ marshalString key @ b)
               else marshalMapLoop keys dictionary buf))"
| "marshalStruct fs =
     (case marshalMap (structMap fs []) of
        Panic p \<Rightarrow> Panic p
      | Ret (b, Some err) \<Rightarrow> Ret ([], Some err)
      | Ret (b, None) \<Rightarrow> Ret (b, None))"
  by pat_completeness auto

text \<open>The recursion ends: every call is on a part of the value.\<close>

lemma size_update_le:
  "size_list (size_prod (\<lambda>_. 0) size) (AList.update k (v::gval) m)
     \<le> size_list (size_prod (\<lambda>_. 0) size) m + size v + 2"
  by (induction m) auto

lemma size_structMap_le:
  "size_list (size_prod (\<lambda>_. 0) size) (structMap fs m)
     \<le> size_list size fs + size_list (size_prod (\<lambda>_. 0) size) m"
proof (induction fs arbitrary: m)
  case Nil
  then show ?case by simp
next
  case (Cons f fs)
  obtain n p t v where f: "f = Field n p t v" by (cases f)
  have u: "\<And>k. size_list (size_prod (\<lambda>_. 0) size) (structMap fs (AList.update k v m))
     \<le> size_list size fs + (size_list (size_prod (\<lambda>_. 0) size) m + size v + 2)"
  proof -
    fix k
    have "size_list (size_prod (\<lambda>_. 0) size) (structMap fs (AList.update k v m))
       \<le> size_list size fs + size_list (size_prod (\<lambda>_. 0) size) (AList.update k v m)"
      by (rule Cons.IH)
    also have "\<dots> \<le> size_list size fs + (size_list (size_prod (\<lambda>_. 0) size) m + size v + 2)"
      using size_update_le [of k v m] by simp
    finally show "size_list (size_prod (\<lambda>_. 0) size) (structMap fs (AList.update k v m))
     \<le> size_list size fs + (size_list (size_prod (\<lambda>_. 0) size) m + size v + 2)" .
  qed
  have w: "size_list size (f # fs) = size_list size fs + size v + 2"
    by (simp add: f)
  show ?case
  proof (cases "structMap (f # fs) m = structMap fs m")
    case True
    then show ?thesis using Cons.IH [of m] unfolding w True by simp
  next
    case False
    then obtain k where "structMap (f # fs) m = structMap fs (AList.update k v m)"
      by (auto simp: f split: option.splits prod.splits if_splits)
    then show ?thesis using u [of k] unfolding w by simp
  qed
qed

lemma size_structMap_less:
  "2 * size_list (size_prod (\<lambda>_. 0) size) (structMap fs []) < Suc (2 * size_list size fs)"
  using size_structMap_le [of fs "[]"] by simp

lemma size_map_of:
  "map_of d k = Some (v::gval) \<Longrightarrow> size v < size_list (size_prod (\<lambda>_. 0) size) d"
  by (induction d) (auto split: if_splits)

termination Marshal
  apply (relation "measures [
     (\<lambda>x. case x of Inl (Inl v) \<Rightarrow> 2 * size v
        | Inl (Inr (xs, buf)) \<Rightarrow> 2 * size_list size xs
        | Inr (Inl kvs) \<Rightarrow> 2 * size_list (size_prod (\<lambda>_. 0) size) kvs
        | Inr (Inr (Inl (keys, d, buf))) \<Rightarrow> 2 * size_list (size_prod (\<lambda>_. 0) size) d
        | Inr (Inr (Inr fs)) \<Rightarrow> 2 * size_list size fs + 1),
     (\<lambda>x. case x of Inl (Inl v) \<Rightarrow> 2
        | Inl (Inr (xs, buf)) \<Rightarrow> 0
        | Inr (Inl kvs) \<Rightarrow> length kvs + 1
        | Inr (Inr (Inl (keys, d, buf))) \<Rightarrow> length keys
        | Inr (Inr (Inr fs)) \<Rightarrow> 0)]")
  apply (simp_all add: size_map_of size_structMap_less)
  done

section \<open>Decoding\<close>

text \<open>
  The input \<^verbatim>\<open>data []byte\<close> is a slice: \<open>data\<close> are its \<^verbatim>\<open>len(data)\<close> bytes and
  \<open>spare\<close> the bytes of its backing array between \<^verbatim>\<open>len(data)\<close> and
  \<^verbatim>\<open>cap(data)\<close>. An index expression \<^verbatim>\<open>data[i]\<close> panics unless \<^verbatim>\<open>i < len(data)\<close>;
  a slice expression \<^verbatim>\<open>data[i:j]\<close> panics unless \<^verbatim>\<open>i \<le> j \<le> cap(data)\<close>;
  \<^verbatim>\<open>data[i:]\<close> keeps the spare bytes.

  \<^verbatim>\<open>string(data[i])\<close> converts a byte to the UTF-8 encoding of the code point of
  that number: one byte below 128, two bytes from 128 on.
\<close>

definition runeString :: "char \<Rightarrow> string" where
  "runeString c =
     (let n = (of_char c :: nat)
      in if n < 128 then [c] else [char_of (192 + n div 64), char_of (128 + n mod 64)])"

text \<open>The loops \<^verbatim>\<open>for ; data[i] != c; i++ { s += string(data[i]) }\<close> of
  \<^verbatim>\<open>unmarshalInt\<close> (\<open>c\<close> is \<^verbatim>\<open>'e'\<close>) and \<^verbatim>\<open>unmarshalString\<close> (\<open>c\<close> is \<^verbatim>\<open>':'\<close>).\<close>

function scanUntil :: "char \<Rightarrow> bytes \<Rightarrow> nat \<Rightarrow> string \<Rightarrow> (nat \<times> string) res" where
  "scanUntil c data i s =
     (if i < length data then
        (if data ! i = c then Ret (i, s)
         else scanUntil c data (Suc i) (s @ runeString (data ! i)))
      else Panic IndexOutOfRange)"
  by pat_completeness auto
termination
  by (relation "measure (\<lambda>(c, data, i, s). length data - i)") auto

declare scanUntil.simps [simp del]

text \<open>\<^verbatim>\<open>unmarshalInt\<close>: the returned count, the error and the new \<^verbatim>\<open>*v\<close>.\<close>

definition unmarshalInt :: "bytes \<Rightarrow> (nat \<times> perr option \<times> 64 word) res" where
  "unmarshalInt data =
     (case scanUntil CHR ''e'' data 1 [] of
        Panic p \<Rightarrow> Panic p
      | Ret (i, s) \<Rightarrow>
          (let (v, err) = ParseInt s
           in Ret (i, map_option ErrNum err, word_of_int v)))"

text \<open>\<^verbatim>\<open>unmarshalString\<close>: the returned count, the error and the new \<^verbatim>\<open>*s\<close>.\<close>

definition unmarshalString :: "bytes \<Rightarrow> bytes \<Rightarrow> string \<Rightarrow> (nat \<times> perr option \<times> string) res" where
  "unmarshalString data spare s =
     (case scanUntil CHR '':'' data 0 [] of
        Panic p \<Rightarrow> Panic p
      | Ret (i0, n) \<Rightarrow>
          (let i = i0 + 1; (size, err) = Atoi n
           in case err of
                Some e \<Rightarrow> Ret (0, Some (ErrNum e), s)
              | None \<Rightarrow>
                  if size < 0 \<or> int i + size > int (length data + length spare)
                  then Panic SliceBounds
                  else Ret (i + nat size, None, take (nat size) (drop i (data @ spare)))))"

subsection \<open>Destinations\<close>

text \<open>
  A field of a struct that is decoded into: its name, package path, tag and value.
\<close>

record dfield =
  dname :: string
  dpkg :: string
  dtag :: "string option"
  dval :: gval

text \<open>
  What the decoder asks of the types of those fields, by the index of the field:
  the \<^verbatim>\<open>UnmarshalBencode\<close> method of the field's type if it has one (from the
  field's value, the bytes \<^verbatim>\<open>data[i:]\<close> and their spare bytes to the count, the
  error and the new value), and what lines 285 to 295 of \<^verbatim>\<open>unmarshalDictionary\<close>
  store into the field for a decoded value (\<^verbatim>\<open>fillSlice\<close>, \<^verbatim>\<open>fillArray\<close>,
  \<^verbatim>\<open>fillStruct\<close> or \<^verbatim>\<open>Set\<close> of a \<^verbatim>\<open>Convert\<close>, by the kind of the field), from
  the field's value and the decoded value. The theorems hold for every such
  record.
\<close>

type_synonym hook = "gval \<Rightarrow> bytes \<Rightarrow> bytes \<Rightarrow> (int \<times> perr option \<times> gval) res"

record methods =
  hookOf :: "nat \<Rightarrow> hook option"
  setOf :: "nat \<Rightarrow> gval \<Rightarrow> gval \<Rightarrow> gval res"

text \<open>
  What the pointer \<^verbatim>\<open>v\<close> given to \<^verbatim>\<open>Unmarshal\<close> points to: a signed integer of
  8, 16, 32 or 64 bits, a \<^verbatim>\<open>string\<close>, a \<^verbatim>\<open>[]interface{}\<close>, a non-nil
  \<^verbatim>\<open>map[string]interface{}\<close>, a struct, an \<^verbatim>\<open>interface{}\<close> holding nil, or a
  value of another kind (Bool, the unsigned integers, floats, arrays, pointers,
  ...). Slices and maps of other element types are not covered.
\<close>

datatype pointee =
    PInt nat "64 word"
  | PString string
  | PSlice "gval list"
  | PMap "(string \<times> gval) list"
  | PStruct "dfield list"
  | PIface
  | POther gval

datatype dest =
    DNil                       \<comment> \<open>the nil interface\<close>
  | DNotPtr                    \<comment> \<open>a value that is no pointer\<close>
  | DPtr pointee

text \<open>The Go value in a slot.\<close>

definition toVal :: "pointee \<Rightarrow> gval" where
  "toVal p =
     (case p of
        PInt bits w \<Rightarrow> VInt w
      | PString s \<Rightarrow> VString s
      | PSlice xs \<Rightarrow> VSlice xs
      | PMap kvs \<Rightarrow> VMap kvs
      | PStruct fs \<Rightarrow> VStruct (map (\<lambda>f. Field (dname f) (dpkg f) (dtag f) (dval f)) fs)
      | PIface \<Rightarrow> VNil
      | POther v \<Rightarrow> v)"

text \<open>\<^verbatim>\<open>reflect.ValueOf(v).Elem().SetInt(i)\<close>: the integer keeps the low bits that fit.\<close>

definition SetInt :: "pointee \<Rightarrow> 64 word \<Rightarrow> pointee res" where
  "SetInt p i =
     (case p of
        PInt bits w \<Rightarrow> Ret (PInt bits (word_of_int (signed_take_bit (bits - 1) (sint i))))
      | _ \<Rightarrow> Panic ReflectKind)"

text \<open>\<^verbatim>\<open>v.Elem().Set(reflect.Append(v.Elem(), x))\<close>.\<close>

definition appendSlice :: "pointee \<Rightarrow> gval \<Rightarrow> pointee res" where
  "appendSlice p x =
     (case p of
        PSlice xs \<Rightarrow> Ret (PSlice (xs @ [VIface x]))
      | _ \<Rightarrow> Panic ReflectKind)"

text \<open>The \<^verbatim>\<open>switch data[i]\<close> that allocates \<^verbatim>\<open>value\<close>, and the test
  \<^verbatim>\<open>value.(*string)\<close>.\<close>

definition newValue :: "char \<Rightarrow> pointee" where
  "newValue c =
     (if c = CHR ''i'' then PInt 64 0
      else if c = CHR ''l'' then PSlice []
      else if c = CHR ''d'' then PMap []
      else PString [])"

definition isStringPtr :: "pointee \<Rightarrow> bool" where
  "isStringPtr p = (case p of PString s \<Rightarrow> True | _ \<Rightarrow> False)"

definition elemOf :: "dest \<Rightarrow> gval" where
  "elemOf d = (case d of DPtr p \<Rightarrow> toVal p | _ \<Rightarrow> VNil)"

definition isNotPtr :: "dest \<Rightarrow> bool" where
  "isNotPtr v = (case v of DNotPtr \<Rightarrow> True | _ \<Rightarrow> False)"

definition putBack :: "dest \<Rightarrow> pointee \<Rightarrow> dest" where
  "putBack v p = (case v of DPtr q \<Rightarrow> DPtr p | _ \<Rightarrow> v)"

subsection \<open>Field resolution\<close>

text \<open>\<^verbatim>\<open>fieldWithNameOrTag\<close>: the index of the field it returns.\<close>

fun fieldLoop :: "dfield list \<Rightarrow> nat \<Rightarrow> string \<Rightarrow> nat option" where
  "fieldLoop [] i name = None"
| "fieldLoop (f # fs) i name =
     (if (case dtag f of Some n \<Rightarrow> name = n | None \<Rightarrow> False) \<or> dname f = name
      then Some i
      else fieldLoop fs (Suc i) name)"

definition fieldWithNameOrTag :: "dfield list \<Rightarrow> string \<Rightarrow> nat option" where
  "fieldWithNameOrTag fs name = fieldLoop fs 0 name"

subsection \<open>The dictionary loop's steps on the destination\<close>

text \<open>
  Lines 247 to 249: for a struct whose field \<^verbatim>\<open>fieldWithNameOrTag\<close> finds,
  \<^verbatim>\<open>addrIfNotPtr(f).Interface()\<close> panics on an unexported field; otherwise the
  field's hook, if its type has one.
\<close>

datatype hookcase =
    NoHook
  | HookPanics
  | Hook nat hook

definition fieldHook :: "methods \<Rightarrow> pointee \<Rightarrow> string \<Rightarrow> hookcase" where
  "fieldHook ty p key =
     (case p of
        PStruct fs \<Rightarrow>
          (case fieldWithNameOrTag fs key of
             None \<Rightarrow> NoHook
           | Some j \<Rightarrow>
               if dpkg (fs ! j) \<noteq> [] then HookPanics
               else (case hookOf ty j of None \<Rightarrow> NoHook | Some h \<Rightarrow> Hook j h))
      | _ \<Rightarrow> NoHook)"

definition setField :: "dfield list \<Rightarrow> nat \<Rightarrow> gval \<Rightarrow> pointee" where
  "setField fs j x = PStruct (fs[j := (fs ! j)\<lparr>dval := x\<rparr>])"

text \<open>
  Lines 280 to 299, the \<^verbatim>\<open>switch v.Elem().Kind()\<close>: the new destination, or
  \<open>None\<close> where the loop returns \<^verbatim>\<open>"type is not a struct or map"\<close>.
\<close>

definition storeEntry :: "methods \<Rightarrow> pointee \<Rightarrow> string \<Rightarrow> gval \<Rightarrow> pointee option res" where
  "storeEntry ty p key x =
     (case p of
        PMap kvs \<Rightarrow> Ret (Some (PMap (AList.update key (VIface x) kvs)))
      | PStruct fs \<Rightarrow>
          (case fieldWithNameOrTag fs key of
             None \<Rightarrow> Ret (Some p)
           | Some j \<Rightarrow>
               (case setOf ty j (dval (fs ! j)) x of
                  Panic q \<Rightarrow> Panic q
                | Ret y \<Rightarrow> Ret (Some (setField fs j y))))
      | _ \<Rightarrow> Ret None)"

subsection \<open>Unmarshal\<close>

text \<open>
  \<^verbatim>\<open>Unmarshal\<close> with the loops of \<^verbatim>\<open>unmarshalList\<close> and
  \<^verbatim>\<open>unmarshalDictionary\<close>, which run from the index \<open>i\<close> on the destination
  \<^verbatim>\<open>v.Elem()\<close>. A hook may report any count, so the dictionary loop need not
  end: the first argument bounds the depth of the calls, and \<open>None\<close> says that
  the bound was reached. A result is the returned count, the returned error and
  the destination after the call.
\<close>

fun
  Unmarshal ::
    "methods \<Rightarrow> nat \<Rightarrow> bytes \<Rightarrow> bytes \<Rightarrow> dest \<Rightarrow> (nat \<times> perr option \<times> dest) res option" and
  unmarshalListLoop ::
    "methods \<Rightarrow> nat \<Rightarrow> bytes \<Rightarrow> bytes \<Rightarrow> nat \<Rightarrow> pointee \<Rightarrow>
       (nat \<times> perr option \<times> pointee) res option" and
  unmarshalDictLoop ::
    "methods \<Rightarrow> nat \<Rightarrow> bytes \<Rightarrow> bytes \<Rightarrow> nat \<Rightarrow> pointee \<Rightarrow>
       (nat \<times> perr option \<times> pointee) res option"
where
  "Unmarshal ty 0 data spare v = None"
| "Unmarshal ty (Suc fuel) data spare v =
     (if isNotPtr v then Some (Ret (0, Some ErrNotPointer, v))
      else if data = [] then Some (Panic IndexOutOfRange)
      else
        let p = (case v of DPtr p \<Rightarrow> p | _ \<Rightarrow> PIface)
        in if data ! 0 = CHR ''i'' then
             (case unmarshalInt data of
                Panic q \<Rightarrow> Some (Panic q)
              | Ret (n, err, i) \<Rightarrow>
                  (case SetInt p i of
                     Panic q \<Rightarrow> Some (Panic q)
                   | Ret p' \<Rightarrow> Some (Ret (n, err, putBack v p'))))
           else if data ! 0 = CHR ''l'' then
             (case unmarshalListLoop ty fuel data spare 1 p of
                None \<Rightarrow> None
              | Some (Panic q) \<Rightarrow> Some (Panic q)
              | Some (Ret (n, err, p')) \<Rightarrow> Some (Ret (n, err, putBack v p')))
           else if data ! 0 = CHR ''d'' then
             (case unmarshalDictLoop ty fuel data spare 1 p of
                None \<Rightarrow> None
              | Some (Panic q) \<Rightarrow> Some (Panic q)
              | Some (Ret (n, err, p')) \<Rightarrow> Some (Ret (n, err, putBack v p')))
           else
             (case p of
                PString s \<Rightarrow>
                  (case unmarshalString data spare s of
                     Panic q \<Rightarrow> Some (Panic q)
                   | Ret (n, err, s') \<Rightarrow> Some (Ret (n, err, putBack v (PString s'))))
              | _ \<Rightarrow> Some (Panic TypeAssertion)))"
| "unmarshalListLoop ty 0 data spare i p = None"
| "unmarshalListLoop ty (Suc fuel) data spare i p =
     (if i \<ge> length data then Some (Panic IndexOutOfRange)
      else if data ! i = CHR ''e'' then Some (Ret (i, None, p))
      else
        let value = newValue (data ! i)
        in case Unmarshal ty fuel (drop i data) spare (DPtr value) of
             None \<Rightarrow> None
           | Some (Panic q) \<Rightarrow> Some (Panic q)
           | Some (Ret (n, Some err, d)) \<Rightarrow> Some (Ret (i, Some err, p))
           | Some (Ret (n, None, d)) \<Rightarrow>
               (case appendSlice p (elemOf d) of
                  Panic q \<Rightarrow> Some (Panic q)
                | Ret p' \<Rightarrow>
                    unmarshalListLoop ty fuel data spare
                      (if isStringPtr value then i + n else i + n + 1) p'))"
| "unmarshalDictLoop ty 0 data spare i p = None"
| "unmarshalDictLoop ty (Suc fuel) data spare i p =
     (if \<not> (i < length data \<and> data ! i \<noteq> CHR ''e'') then Some (Ret (i, None, p))
      else
        case unmarshalString (drop i data) spare [] of
          Panic q \<Rightarrow> Some (Panic q)
        | Ret (n, Some err, key) \<Rightarrow> Some (Ret (i, Some err, p))
        | Ret (n, None, key) \<Rightarrow>
            (case fieldHook ty p key of
               HookPanics \<Rightarrow> Some (Panic ReflectKind)
             | Hook j h \<Rightarrow>
                 (case p of
                    PStruct fs \<Rightarrow>
                      if i + n > length data then Some (Panic SliceBounds)
                      else
                        (case h (dval (fs ! j)) (drop (i + n) data) spare of
                           Panic q \<Rightarrow> Some (Panic q)
                         | Ret (m, Some err, x) \<Rightarrow> Some (Ret (i + n, Some err, setField fs j x))
                         | Ret (m, None, x) \<Rightarrow>
                             if int (i + n) + m < 0 \<or> int (i + n) + m \<ge> int (length data)
                             then Some (Panic IndexOutOfRange)
                             else
                               unmarshalDictLoop ty fuel data spare
                                 (if data ! nat (int (i + n) + m) = CHR ''e''
                                  then nat (int (i + n) + m) + 1
                                  else nat (int (i + n) + m))
                                 (setField fs j x))
                  | _ \<Rightarrow> Some (Panic ReflectKind))
             | NoHook \<Rightarrow>
                 if i + n \<ge> length data then Some (Panic IndexOutOfRange)
                 else
                   let value = newValue (data ! (i + n))
                   in case Unmarshal ty fuel (drop (i + n) data) spare (DPtr value) of
                        None \<Rightarrow> None
                      | Some (Panic q) \<Rightarrow> Some (Panic q)
                      | Some (Ret (m, Some err, d)) \<Rightarrow> Some (Ret (i + n, Some err, p))
                      | Some (Ret (m, None, d)) \<Rightarrow>
                          (case storeEntry ty p key (elemOf d) of
                             Panic q \<Rightarrow> Some (Panic q)
                           | Ret None \<Rightarrow> Some (Ret (i + n + m, Some ErrNotStructOrMap, p))
                           | Ret (Some p') \<Rightarrow>
                               unmarshalDictLoop ty fuel data spare
                                 (if isStringPtr value then i + n + m else i + n + m + 1) p')))"

text \<open>\<^verbatim>\<open>unmarshalList\<close> and \<^verbatim>\<open>unmarshalDictionary\<close> start their loops at 1.\<close>

definition unmarshalList ::
  "methods \<Rightarrow> nat \<Rightarrow> bytes \<Rightarrow> bytes \<Rightarrow> pointee \<Rightarrow> (nat \<times> perr option \<times> pointee) res option" where
  "unmarshalList ty fuel data spare p = unmarshalListLoop ty fuel data spare 1 p"

definition unmarshalDictionary ::
  "methods \<Rightarrow> nat \<Rightarrow> bytes \<Rightarrow> bytes \<Rightarrow> pointee \<Rightarrow> (nat \<times> perr option \<times> pointee) res option" where
  "unmarshalDictionary ty fuel data spare p = unmarshalDictLoop ty fuel data spare 1 p"

section \<open>Digits\<close>

lemma digit_cases:
  assumes "0 \<le> d" "d < (10::int)"
  shows "d = 0 \<or> d = 1 \<or> d = 2 \<or> d = 3 \<or> d = 4 \<or> d = 5 \<or> d = 6 \<or> d = 7 \<or> d = 8 \<or> d = 9"
  using assms by arith

lemma of_char_digit: "0 \<le> d \<Longrightarrow> d < 10 \<Longrightarrow> (of_char (digit d) :: int) = 48 + d"
  using digit_cases [of d] by (auto simp: digit_def)

lemma isDigit_digit: "0 \<le> d \<Longrightarrow> d < 10 \<Longrightarrow> isDigit (digit d)"
  by (simp add: isDigit_def of_char_digit)

lemma digitVal_digit: "0 \<le> d \<Longrightarrow> d < 10 \<Longrightarrow> digitVal (digit d) = d"
  by (simp add: digitVal_def of_char_digit)

lemma isDigit_not_special:
  "isDigit c \<Longrightarrow> c \<noteq> CHR ''e'' \<and> c \<noteq> CHR '':'' \<and> c \<noteq> CHR ''-'' \<and> c \<noteq> CHR ''+''
     \<and> c \<noteq> CHR ''i'' \<and> c \<noteq> CHR ''l'' \<and> c \<noteq> CHR ''d''"
  by (auto simp: isDigit_def)

lemma isDigit_runeString: "isDigit c \<Longrightarrow> runeString c = [c]"
proof -
  assume d: "isDigit c"
  have "int (of_char c) = (of_char c :: int)" by (simp add: of_nat_of_char)
  with d have "(of_char c :: nat) < 128" by (simp add: isDigit_def)
  then show ?thesis by (simp add: runeString_def Let_def)
qed

section \<open>Itoa and ParseInt\<close>

lemma formatBits_digits: "0 \<le> n \<Longrightarrow> list_all isDigit (formatBits n)"
proof (induction n rule: formatBits.induct)
  case (1 n)
  show ?case
  proof (cases "n < 10")
    case True
    with 1 show ?thesis by (subst formatBits.simps) (simp add: isDigit_digit)
  next
    case False
    with 1 have "list_all isDigit (formatBits (n div 10))" by simp
    with False 1 show ?thesis by (subst formatBits.simps) (simp add: isDigit_digit)
  qed
qed

lemma formatBits_nonempty: "formatBits n \<noteq> []"
  by (subst formatBits.simps) simp

lemma parseUintLoop_formatBits:
  "0 \<le> n \<Longrightarrow> n \<le> maxUint64 \<Longrightarrow> parseUintLoop (formatBits n @ cs) 0 = parseUintLoop cs n"
proof (induction n arbitrary: cs rule: formatBits.induct)
  case (1 n)
  show ?case
  proof (cases "n < 10")
    case True
    with 1 show ?thesis
      by (subst formatBits.simps) (simp add: isDigit_digit digitVal_digit maxUint64_def)
  next
    case False
    have d: "0 \<le> n mod 10" "n mod 10 < 10" by simp_all
    from False 1 have ih: "parseUintLoop (formatBits (n div 10) @ digit (n mod 10) # cs) 0
        = parseUintLoop (digit (n mod 10) # cs) (n div 10)"
      by (simp add: maxUint64_def)
    have "\<not> maxUint64 div 10 + 1 \<le> n div 10" using 1(3) by (simp add: maxUint64_def)
    moreover have "n div 10 * 10 + n mod 10 = n" by simp
    ultimately have "parseUintLoop (digit (n mod 10) # cs) (n div 10) = parseUintLoop cs n"
      using 1(3) d by (simp add: isDigit_digit digitVal_digit del: div_mult_mod_eq)
    with ih False show ?thesis by (subst formatBits.simps) simp
  qed
qed

lemma ParseUint_formatBits: "0 \<le> n \<Longrightarrow> n \<le> maxUint64 \<Longrightarrow> ParseUint (formatBits n) = (n, None)"
  using parseUintLoop_formatBits [of n "[]"] by (simp add: ParseUint_def formatBits_nonempty)

lemma hd_formatBits: "0 \<le> n \<Longrightarrow> isDigit (hd (formatBits n))"
  using formatBits_digits [of n] formatBits_nonempty [of n] by (cases "formatBits n") simp_all

lemma ParseInt_Itoa: "- (2 ^ 63) \<le> i \<Longrightarrow> i < 2 ^ 63 \<Longrightarrow> ParseInt (Itoa i) = (i, None)"
proof (cases "i < 0")
  case True
  assume "- (2 ^ 63) \<le> i"
  with True have "ParseUint (formatBits (- i)) = (- i, None)"
    by (intro ParseUint_formatBits) (simp_all add: maxUint64_def)
  with True \<open>- (2 ^ 63) \<le> i\<close> show ?thesis by (simp add: ParseInt_def Itoa_def Let_def)
next
  case False
  assume "i < 2 ^ 63"
  with False have p: "ParseUint (formatBits i) = (i, None)"
    by (intro ParseUint_formatBits) (simp_all add: maxUint64_def)
  from False have "isDigit (hd (formatBits i))" by (simp add: hd_formatBits)
  then have "hd (formatBits i) \<noteq> CHR ''-''" "hd (formatBits i) \<noteq> CHR ''+''"
    using isDigit_not_special by blast+
  with False p \<open>i < 2 ^ 63\<close> show ?thesis
    by (simp add: ParseInt_def Itoa_def Let_def formatBits_nonempty)
qed

lemma Itoa_nonempty: "Itoa i \<noteq> []"
  by (simp add: Itoa_def formatBits_nonempty)

lemma Itoa_chars: "c \<in> set (Itoa i) \<Longrightarrow> isDigit c \<or> c = CHR ''-''"
proof -
  assume c: "c \<in> set (Itoa i)"
  show ?thesis
  proof (cases "i < 0")
    case True
    with c formatBits_digits [of "- i"] show ?thesis by (auto simp: Itoa_def list_all_iff)
  next
    case False
    with c formatBits_digits [of i] show ?thesis by (auto simp: Itoa_def list_all_iff)
  qed
qed

lemma runes_id: "(\<And>c. c \<in> set xs \<Longrightarrow> runeString c = [c]) \<Longrightarrow> concat (map runeString xs) = xs"
  by (induction xs) simp_all

lemma Itoa_runes: "concat (map runeString (Itoa i)) = Itoa i"
proof -
  have m: "runeString CHR ''-'' = ''-''" by (simp add: runeString_def)
  have "\<And>c. c \<in> set (Itoa i) \<Longrightarrow> runeString c = [c]"
    using Itoa_chars isDigit_runeString m by blast
  then show ?thesis by (rule runes_id)
qed

lemma Itoa_no_e: "CHR ''e'' \<notin> set (Itoa i)"
  using Itoa_chars [of "CHR ''e''" i] isDigit_not_special [of "CHR ''e''"] by auto

lemma Itoa_no_colon: "CHR '':'' \<notin> set (Itoa i)"
  using Itoa_chars [of "CHR '':''" i] isDigit_not_special [of "CHR '':''"] by auto

lemma hd_Itoa_nat: "0 \<le> i \<Longrightarrow> isDigit (hd (Itoa i))"
  by (simp add: Itoa_def hd_formatBits)

section \<open>Scanning\<close>

lemma scanUntil_append:
  "c \<notin> set ds \<Longrightarrow>
   scanUntil c (pre @ ds @ c # rest) (length pre) acc
     = Ret (length pre + length ds, acc @ concat (map runeString ds))"
proof (induction ds arbitrary: pre acc)
  case Nil
  then show ?case by (subst scanUntil.simps) simp
next
  case (Cons x ds)
  from Cons.prems have x: "x \<noteq> c" and ds: "c \<notin> set ds" by auto
  have "scanUntil c ((pre @ [x]) @ ds @ c # rest) (length (pre @ [x])) (acc @ runeString x)
      = Ret (length (pre @ [x]) + length ds, (acc @ runeString x) @ concat (map runeString ds))"
    by (rule Cons.IH [OF ds])
  then show ?case using x by (subst scanUntil.simps) simp
qed

lemma scanUntil_none:
  "c \<notin> set (drop i data) \<Longrightarrow> scanUntil c data i acc = Panic IndexOutOfRange"
proof (induction c data i acc rule: scanUntil.induct)
  case (1 c data i s)
  show ?case
  proof (cases "i < length data")
    case True
    then have d: "drop i data = data ! i # drop (Suc i) data" by (simp add: Cons_nth_drop_Suc)
    with 1 True show ?thesis by (subst scanUntil.simps) auto
  next
    case False
    then show ?thesis by (subst scanUntil.simps) simp
  qed
qed

lemma Atoi_Itoa: "0 \<le> n \<Longrightarrow> n < 2 ^ 63 \<Longrightarrow> Atoi (Itoa n) = (n, None)"
  by (simp add: Atoi_def ParseInt_Itoa)

lemma unmarshalString_general:
  assumes "CHR '':'' \<notin> set ds"
  shows "unmarshalString (ds @ CHR '':'' # rest) spare s =
     (case Atoi (concat (map runeString ds)) of
        (n, Some e) \<Rightarrow> Ret (0, Some (ErrNum e), s)
      | (n, None) \<Rightarrow>
          if n < 0 \<or> int (length rest + length spare) < n then Panic SliceBounds
          else Ret (length ds + 1 + nat n, None, take (nat n) (rest @ spare)))"
proof -
  have "scanUntil CHR '':'' ([] @ ds @ CHR '':'' # rest) (length ([]::string)) []
      = Ret (length ([]::string) + length ds, [] @ concat (map runeString ds))"
    using assms by (rule scanUntil_append)
  then have sc: "scanUntil CHR '':'' (ds @ CHR '':'' # rest) 0 [] = Ret (length ds, concat (map runeString ds))"
    by simp
  show ?thesis
    by (auto simp: unmarshalString_def sc Let_def split: prod.splits option.splits)
qed

lemma unmarshalString_marshalString:
  assumes "length s < 2 ^ 63"
  shows "unmarshalString (marshalString s @ rest) spare s0 = Ret (length (marshalString s), None, s)"
proof -
  let ?n = "int (length s)"
  have a: "Atoi (concat (map runeString (Itoa ?n))) = (?n, None)"
    using assms by (simp add: Itoa_runes Atoi_Itoa)
  have "unmarshalString (Itoa ?n @ CHR '':'' # (s @ rest)) spare s0 = Ret (length (Itoa ?n) + 1 + nat ?n, None, take (nat ?n) ((s @ rest) @ spare))"
    using unmarshalString_general [OF Itoa_no_colon, of ?n "s @ rest" spare s0] a by simp
  then show ?thesis by (simp add: marshalString_def)
qed

section \<open>The claims\<close>

text \<open>
  C7. A slice whose element kind is Uint8 is encoded as one byte string: the
  decimal length, a colon and the bytes, so that the output starts with a digit
  and not with the \<^verbatim>\<open>l\<close> of a list. The four bytes 0x53, 0x6f, 0x6d, 0x65 give
  \<^verbatim>\<open>4:Some\<close>, and the nil slice gives \<^verbatim>\<open>0:\<close>.
\<close>

theorem byte_slice_encodes_as_byte_string:
  "Marshal (VBytes s) = Ret (Itoa (int (length s)) @ '':'' @ s, None)
   \<and> isDigit (hd (Itoa (int (length s)) @ '':'' @ s))
   \<and> Marshal (VBytes (map char_of [0x53, 0x6f, 0x6d, 0x65 :: nat])) = Ret (''4:Some'', None)
   \<and> Marshal VNilBytes = Ret (''0:'', None)"
proof -
  have "Marshal (VBytes (map char_of [0x53, 0x6f, 0x6d, 0x65 :: nat])) = Ret (''4:Some'', None)"
    by code_simp
  moreover have "Marshal VNilBytes = Ret (''0:'', None)"
    by code_simp
  moreover have "isDigit (hd (Itoa (int (length s)) @ '':'' @ s))"
    using hd_Itoa_nat [of "int (length s)"] by (simp add: Itoa_nonempty)
  ultimately show ?thesis by (simp add: marshalString_def)
qed

text \<open>
  C5. \<^verbatim>\<open>Marshal([]complex128{0})\<close> returns the error for the unsupported element
  together with the bytes \<^verbatim>\<open>le\<close>: \<^verbatim>\<open>marshalList\<close> closes the list and returns its
  buffer with the error, where \<^verbatim>\<open>Marshal\<close>, \<^verbatim>\<open>marshalMap\<close> and
  \<^verbatim>\<open>marshalStruct\<close> return no bytes with an error.
\<close>

theorem list_error_returns_partial_output:
  "Marshal (VSlice [VOther ''complex128'' True]) = Ret (''le'', Some (ErrUnsupportedType ''complex128''))"
  by simp

text \<open>
  C10. On an empty buffer \<^verbatim>\<open>Unmarshal\<close> returns no error value: for every
  destination that is a pointer, and for the nil destination, the unguarded
  \<^verbatim>\<open>data[0]\<close> panics with an index out of range. (The only check before the
  peek is the one that the destination is a pointer.)
\<close>

theorem Unmarshal_empty_buffer_panics:
  "Unmarshal ty (Suc fuel) [] spare (DPtr p) = Some (Panic IndexOutOfRange)
   \<and> Unmarshal ty (Suc fuel) [] spare DNil = Some (Panic IndexOutOfRange)"
  by (simp add: isNotPtr_def)

text \<open>
  C3, as stated, fails: the buffer \<^verbatim>\<open>5:ab\<close> declares five bytes and holds two,
  and \<^verbatim>\<open>unmarshalString\<close> panics on the slice expression instead of returning an
  error.
\<close>

theorem truncated_string_counterexample:
  "unmarshalString ''5:ab'' [] [] = Panic SliceBounds"
  by code_simp

text \<open>
  C3, amended. Let the bytes \<open>ds\<close> before the first colon be followed by \<open>rest\<close>.
  When \<^verbatim>\<open>Atoi\<close> reads \<open>ds\<close> as a length \<open>n\<close> and fewer than \<open>n\<close> bytes remain,
  no error is returned: the slice expression panics when \<open>n\<close> bytes do not fit
  in the capacity of the buffer, and otherwise the decoder returns \<open>n\<close> bytes
  that run into the spare capacity. When \<^verbatim>\<open>Atoi\<close> rejects \<open>ds\<close>, the decoder
  returns the count 0 and that error, and leaves the destination as it was.
\<close>

theorem truncated_or_malformed_byte_string:
  assumes "CHR '':'' \<notin> set ds"
  shows "(\<forall>n. Atoi (concat (map runeString ds)) = (n, None) \<and> int (length rest) < n \<longrightarrow>
            unmarshalString (ds @ CHR '':'' # rest) spare s =
              (if n \<le> int (length rest + length spare)
               then Ret (length ds + 1 + nat n, None, take (nat n) (rest @ spare))
               else Panic SliceBounds))
       \<and> (\<forall>n e. Atoi (concat (map runeString ds)) = (n, Some e) \<longrightarrow>
            unmarshalString (ds @ CHR '':'' # rest) spare s = Ret (0, Some (ErrNum e), s))"
  using unmarshalString_general [OF assms, of rest spare s] by auto

theorem truncated_or_malformed_byte_string_witness:
  "unmarshalString ''3:a'' [] ''old'' = Panic SliceBounds
   \<and> unmarshalString ''3:a'' ''bcd'' ''old'' = Ret (5, None, ''abc'')
   \<and> unmarshalString ''x3:a'' [] ''old'' = Ret (0, Some (ErrNum ErrSyntax), ''old'')"
proof -
  have a: "Atoi (concat (map runeString ''3'')) = (3, None)" by code_simp
  have b: "Atoi (concat (map runeString ''x3'')) = (0, Some ErrSyntax)" by code_simp
  have c: "CHR '':'' \<notin> set ''3''" "CHR '':'' \<notin> set ''x3''" by simp_all
  show ?thesis
    using truncated_or_malformed_byte_string [OF c(1), of "''a''" "[]" "''old''"]
          truncated_or_malformed_byte_string [OF c(1), of "''a''" "''bcd''" "''old''"]
          truncated_or_malformed_byte_string [OF c(2), of "''a''" "[]" "''old''"] a b
    by simp
qed

end
